theory Spec2Isabelle
  imports Complex_Main
begin

section \<open>Numbers\<close>

text \<open>
  The Python code computes with floats (and numpy's float64). Finite floats are idealised
  as real numbers here: rounding, overflow and underflow are not modelled. One operation
  of the code leaves the finite numbers: the division by \<^verbatim>\<open>sum(weights)\<close> in the
  ensemble, which numpy evaluates to \<^verbatim>\<open>nan\<close> or \<^verbatim>\<open>inf\<close> (with a warning, not an
  exception) when the sum is \<^verbatim>\<open>0.0\<close>. HOL's \<open>x / 0 = 0\<close> would hide that, so the
  values computed from normalised weights are of type \<open>fval\<close>, a real number or one of
  the three IEEE special values.
\<close>

datatype fval = Fin real | PInf | NInf | NaN

text \<open>\<^verbatim>\<open>c / s\<close> for finite \<^verbatim>\<open>c\<close> and \<^verbatim>\<open>s\<close>; a zero sum of floats is \<^verbatim>\<open>+0.0\<close>.\<close>

definition fdiv :: "real \<Rightarrow> real \<Rightarrow> fval" where
  "fdiv c s =
     (if s \<noteq> 0 then Fin (c / s)
      else if 0 < c then PInf
      else if c < 0 then NInf
      else NaN)"

text \<open>\<^verbatim>\<open>w * p\<close> for a weight \<^verbatim>\<open>w\<close> and a finite prediction \<^verbatim>\<open>p\<close>.\<close>

fun fmul :: "fval \<Rightarrow> real \<Rightarrow> fval" where
  "fmul (Fin a) p = Fin (a * p)"
| "fmul PInf p = (if 0 < p then PInf else if p < 0 then NInf else NaN)"
| "fmul NInf p = (if 0 < p then NInf else if p < 0 then PInf else NaN)"
| "fmul NaN p = NaN"

fun fadd :: "fval \<Rightarrow> fval \<Rightarrow> fval" where
  "fadd (Fin a) (Fin b) = Fin (a + b)"
| "fadd NaN y = NaN"
| "fadd x NaN = NaN"
| "fadd PInf NInf = NaN"
| "fadd NInf PInf = NaN"
| "fadd PInf y = PInf"
| "fadd x PInf = PInf"
| "fadd NInf y = NInf"
| "fadd x NInf = NInf"

text \<open>
  Python's \<^verbatim>\<open>max(x, 0)\<close> returns \<^verbatim>\<open>0\<close> when \<^verbatim>\<open>0 > x\<close> and \<^verbatim>\<open>x\<close> otherwise;
  every comparison with \<^verbatim>\<open>nan\<close> is false, so \<^verbatim>\<open>max(nan, 0)\<close> is \<^verbatim>\<open>nan\<close>.
\<close>

fun py_max0 :: "fval \<Rightarrow> fval" where
  "py_max0 (Fin a) = Fin (if 0 > a then 0 else a)"
| "py_max0 PInf = PInf"
| "py_max0 NInf = Fin 0"
| "py_max0 NaN = NaN"

text \<open>\<^verbatim>\<open>np.mean\<close> of a non-empty list (of an empty one it is \<^verbatim>\<open>nan\<close>).\<close>

definition mean :: "real list \<Rightarrow> real" where
  "mean xs = sum_list xs / real (length xs)"

text \<open>\<^verbatim>\<open>np.std\<close> with its default \<^verbatim>\<open>ddof=0\<close>: the population standard deviation.\<close>

definition np_std :: "real list \<Rightarrow> real" where
  "np_std xs = sqrt (mean (map (\<lambda>x. (x - mean xs)\<^sup>2) xs))"

section \<open>The random number generator\<close>

text \<open>
  \<^verbatim>\<open>np.random.normal\<close> reads and advances numpy's global generator. Its state is
  modelled by the sequence of standard normal draws still to come; a call takes the first
  and leaves the rest. \<^verbatim>\<open>normal(loc, scale)\<close> is \<^verbatim>\<open>loc + scale * z\<close> for the draw
  \<^verbatim>\<open>z\<close>.
\<close>

type_synonym rng = "nat \<Rightarrow> real"

definition random_normal :: "real \<Rightarrow> real \<Rightarrow> rng \<Rightarrow> real \<times> rng" where
  "random_normal loc scale g = (loc + scale * g 0, \<lambda>i. g (Suc i))"

section \<open>Demand forecasting (backend/services/ml\_service.py)\<close>

datatype py_error =
    IndexError
  | NoGeneratorsAvailableError \<comment> \<open>named by the specification; no path of the code raises it\<close>

text \<open>
  A generator returns a dict with the keys \<^verbatim>\<open>predictions\<close>, \<^verbatim>\<open>model_type\<close> and
  \<^verbatim>\<open>confidence\<close>, or a dict with the key \<^verbatim>\<open>error\<close> only. A key that is absent is
  \<open>None\<close>.
\<close>

record model_forecast =
  predictions :: "real list option"
  model_type :: "string option"
  confidence :: "real option"
  error :: "string option"

subsection \<open>The generators\<close>

text \<open>
  The loop shared by the three generators:
  \<^verbatim>\<open>for day in range(days):
      prediction = base_value + np.random.normal(loc, scale)
      predictions.append(max(prediction, 0))\<close>
\<close>

fun draw_predictions :: "real \<Rightarrow> real \<Rightarrow> real \<Rightarrow> nat \<Rightarrow> rng \<Rightarrow> real list \<times> rng" where
  "draw_predictions base_value loc scale 0 g = ([], g)"
| "draw_predictions base_value loc scale (Suc n) g =
     (let (z, g1) = random_normal loc scale g;
          prediction = base_value + z;
          (rest, g2) = draw_predictions base_value loc scale n g1
      in ((if 0 > prediction then 0 else prediction) # rest, g2))"

text \<open>\<^verbatim>\<open>TENSORFLOW_AVAILABLE\<close> is set at import time; it is the parameter \<open>tf\<close>.\<close>

definition predict_with_lstm :: "bool \<Rightarrow> 'f \<Rightarrow> int \<Rightarrow> rng \<Rightarrow> model_forecast \<times> rng" where
  "predict_with_lstm tf features days g =
     (if \<not> tf then
        (\<lparr>predictions = None, model_type = None, confidence = None,
          error = Some ''TensorFlow not available''\<rparr>, g)
      else
        (let (ps, g') = draw_predictions 100 0 10 (nat days) g
         in (\<lparr>predictions = Some ps, model_type = Some ''LSTM'', confidence = Some 0.85,
              error = None\<rparr>, g')))"

definition predict_with_random_forest :: "'f \<Rightarrow> int \<Rightarrow> rng \<Rightarrow> model_forecast \<times> rng" where
  "predict_with_random_forest features days g =
     (let (ps, g') = draw_predictions 95 5 8 (nat days) g
      in (\<lparr>predictions = Some ps, model_type = Some ''Random Forest'',
           confidence = Some 0.80, error = None\<rparr>, g'))"

definition predict_with_gradient_boosting :: "'f \<Rightarrow> int \<Rightarrow> rng \<Rightarrow> model_forecast \<times> rng" where
  "predict_with_gradient_boosting features days g =
     (let (ps, g') = draw_predictions 102 3 7 (nat days) g
      in (\<lparr>predictions = Some ps, model_type = Some ''Gradient Boosting'',
           confidence = Some 0.82, error = None\<rparr>, g'))"

subsection \<open>Ensemble combination\<close>

text \<open>
  \<^verbatim>\<open>forecasts\<close> is a dict from model names to forecasts; Python iterates it in insertion
  order, so it is an association list. The first loop of
  \<^verbatim>\<open>_create_ensemble_forecast\<close> collects, for every forecast that has the key
  \<^verbatim>\<open>predictions\<close>, its predictions and \<^verbatim>\<open>forecast.get("confidence", 0.8)\<close>.
\<close>

definition get_confidence :: "model_forecast \<Rightarrow> real" where
  "get_confidence f = (case confidence f of None \<Rightarrow> 0.8 | Some c \<Rightarrow> c)"

fun predictions_list :: "(string \<times> model_forecast) list \<Rightarrow> real list list" where
  "predictions_list [] = []"
| "predictions_list ((model_name, forecast) # rest) =
     (case predictions forecast of
        None \<Rightarrow> predictions_list rest
      | Some ps \<Rightarrow> ps # predictions_list rest)"

fun weights :: "(string \<times> model_forecast) list \<Rightarrow> real list" where
  "weights [] = []"
| "weights ((model_name, forecast) # rest) =
     (case predictions forecast of
        None \<Rightarrow> weights rest
      | Some ps \<Rightarrow> get_confidence forecast # weights rest)"

text \<open>The test \<^verbatim>\<open>"predictions" in forecast\<close> of that loop, on an entry of the dict.\<close>

definition succeeded :: "string \<times> model_forecast \<Rightarrow> bool" where
  "succeeded nf = (predictions (snd nf) \<noteq> None)"

text \<open>\<^verbatim>\<open>weights = np.array(weights) / sum(weights)\<close>\<close>

definition normalize_weights :: "real list \<Rightarrow> fval list" where
  "normalize_weights ws = map (\<lambda>c. fdiv c (sum_list ws)) ws"

text \<open>
  \<^verbatim>\<open>day_predictions = [pred[day] for pred in predictions_list]\<close>: an index beyond the
  end of a prediction list raises \<^verbatim>\<open>IndexError\<close>.
\<close>

definition day_predictions :: "real list list \<Rightarrow> nat \<Rightarrow> py_error + real list" where
  "day_predictions pl day =
     (if list_all (\<lambda>pred. day < length pred) pl
      then Inr (map (\<lambda>pred. pred ! day) pl)
      else Inl IndexError)"

text \<open>
  \<^verbatim>\<open>sum(w * p for w, p in zip(weights, day_predictions))\<close>: Python's \<^verbatim>\<open>sum\<close> starts
  at \<^verbatim>\<open>0\<close> and adds from the left.
\<close>

definition weighted_prediction :: "fval list \<Rightarrow> real list \<Rightarrow> fval" where
  "weighted_prediction ws dp = foldl fadd (Fin 0) (map (\<lambda>(w, p). fmul w p) (zip ws dp))"

text \<open>The loop \<^verbatim>\<open>for day in range(days)\<close>; an exception ends it.\<close>

fun ensemble_loop :: "fval list \<Rightarrow> real list list \<Rightarrow> nat list \<Rightarrow> py_error + fval list" where
  "ensemble_loop ws pl [] = Inr []"
| "ensemble_loop ws pl (day # later) =
     (case day_predictions pl day of
        Inl e \<Rightarrow> Inl e
      | Inr dp \<Rightarrow>
          (case ensemble_loop ws pl later of
             Inl e \<Rightarrow> Inl e
           | Inr rest \<Rightarrow> Inr (py_max0 (weighted_prediction ws dp) # rest)))"

text \<open>
  The fallback \<^verbatim>\<open>[100 + np.random.normal(0, 10) for _ in range(days)]\<close>; it is not
  floored at 0.
\<close>

fun fallback_predictions :: "nat \<Rightarrow> rng \<Rightarrow> real list \<times> rng" where
  "fallback_predictions 0 g = ([], g)"
| "fallback_predictions (Suc n) g =
     (let (z, g1) = random_normal 0 10 g;
          (rest, g2) = fallback_predictions n g1
      in ((100 + z) # rest, g2))"

definition create_ensemble_forecast ::
  "(string \<times> model_forecast) list \<Rightarrow> int \<Rightarrow> rng \<Rightarrow> (py_error + fval list) \<times> rng" where
  "create_ensemble_forecast forecasts days g =
     (if predictions_list forecasts = [] then
        (let (ps, g') = fallback_predictions (nat days) g in (Inr (map Fin ps), g'))
      else
        (ensemble_loop (normalize_weights (weights forecasts)) (predictions_list forecasts)
           [0..<nat days], g))"

text \<open>
  The forecasting part of \<^verbatim>\<open>predict_demand\<close>: the generators run in turn (the LSTM
  only when TensorFlow is available) and their forecasts are combined.
\<close>

definition generate_forecasts ::
  "bool \<Rightarrow> 'f \<Rightarrow> int \<Rightarrow> rng \<Rightarrow> (string \<times> model_forecast) list \<times> rng" where
  "generate_forecasts tf features days g =
     (let (lstm, g1) =
            (if tf then
               (let (f, g') = predict_with_lstm tf features days g in ([(''lstm'', f)], g'))
             else ([], g));
          (rf_forecast, g2) = predict_with_random_forest features days g1;
          (gb_forecast, g3) = predict_with_gradient_boosting features days g2
      in (lstm @ [(''random_forest'', rf_forecast), (''gradient_boosting'', gb_forecast)], g3))"

definition ensemble_forecaster ::
  "bool \<Rightarrow> 'f \<Rightarrow> int \<Rightarrow> rng \<Rightarrow> (py_error + fval list) \<times> rng" where
  "ensemble_forecaster tf features days g =
     (let (forecasts, g') = generate_forecasts tf features days g
      in create_ensemble_forecast forecasts days g')"

subsection \<open>Confidence intervals\<close>

definition std_error :: real where
  "std_error = 5.0"

record confidence_intervals =
  lower_bound :: "real list"
  upper_bound :: "real list"
  confidence_level :: real

text \<open>The point forecasts handed over are finite numbers; \<open>features\<close> is not read.\<close>

definition calculate_confidence_intervals :: "real list \<Rightarrow> 'f \<Rightarrow> confidence_intervals" where
  "calculate_confidence_intervals forecasts features =
     \<lparr>lower_bound = map (\<lambda>f. f - 1.96 * std_error) forecasts,
      upper_bound = map (\<lambda>f. f + 1.96 * std_error) forecasts,
      confidence_level = 0.95\<rparr>"

subsection \<open>Rolling statistics of the demand column\<close>

text \<open>
  \<^verbatim>\<open>_prepare_demand_features\<close> computes
  \<^verbatim>\<open>data['demand'].rolling(window).mean()\<close> and
  \<^verbatim>\<open>data['demand'].rolling(window).std()\<close> for the windows 7, 14 and 30. These are
  pandas operations with their default arguments: \<^verbatim>\<open>min_periods\<close> is the window size,
  so the value at index \<open>i\<close> is \<^verbatim>\<open>NaN\<close> (here \<open>None\<close>) unless the window
  \<^verbatim>\<open>value[i-window+1 .. i]\<close> lies in the series, and \<^verbatim>\<open>std\<close> has \<^verbatim>\<open>ddof=1\<close>: it
  divides the sum of squared deviations by the number of points less one.
\<close>

definition rolling_window :: "nat \<Rightarrow> real list \<Rightarrow> nat \<Rightarrow> real list option" where
  "rolling_window window xs i =
     (if i + 1 < window then None else Some (take window (drop (i + 1 - window) xs)))"

definition sample_std :: "real list \<Rightarrow> real option" where
  "sample_std ys =
     (if length ys < 2 then None
      else Some (sqrt (sum_list (map (\<lambda>y. (y - mean ys)\<^sup>2) ys) / real (length ys - 1))))"

definition rolling_mean :: "nat \<Rightarrow> real list \<Rightarrow> real option list" where
  "rolling_mean window xs =
     map (\<lambda>i. map_option mean (rolling_window window xs i)) [0..<length xs]"

definition rolling_std :: "nat \<Rightarrow> real list \<Rightarrow> real option list" where
  "rolling_std window xs =
     map (\<lambda>i. Option.bind (rolling_window window xs i) sample_std) [0..<length xs]"

text \<open>
  The loop \<^verbatim>\<open>for window in [7, 14, 30]\<close>: for each window its size, the column
  \<^verbatim>\<open>demand_rolling_mean_<window>\<close> and the column \<^verbatim>\<open>demand_rolling_std_<window>\<close>.
\<close>

definition demand_rolling_features ::
  "real list \<Rightarrow> (nat \<times> real option list \<times> real option list) list" where
  "demand_rolling_features demand =
     map (\<lambda>window. (window, rolling_mean window demand, rolling_std window demand))
       [7, 14, 30]"

section \<open>Trend metrics (backend/services/analytics\_service.py)\<close>

text \<open>A historical record is a dict; \<^verbatim>\<open>item.get("value", 0)\<close> reads it.\<close>

type_synonym item = "string \<rightharpoonup> real"

definition get_value :: "item \<Rightarrow> real" where
  "get_value item = (case item ''value'' of None \<Rightarrow> 0 | Some v \<Rightarrow> v)"

text \<open>
  Python's slices \<^verbatim>\<open>xs[k:]\<close> and \<^verbatim>\<open>xs[:k]\<close>: a negative bound counts from the end,
  and a bound outside the list is clipped.
\<close>

definition slice_bound :: "int \<Rightarrow> 'a list \<Rightarrow> nat" where
  "slice_bound k xs =
     (let n = int (length xs) in nat (if k < 0 then max 0 (n + k) else min k n))"

definition slice_from :: "int \<Rightarrow> 'a list \<Rightarrow> 'a list" where
  "slice_from k xs = drop (slice_bound k xs) xs"

definition slice_to :: "int \<Rightarrow> 'a list \<Rightarrow> 'a list" where
  "slice_to k xs = take (slice_bound k xs) xs"

text \<open>
  \<^verbatim>\<open>-len(values)//2\<close> is \<^verbatim>\<open>(-len(values)) // 2\<close>: the unary minus binds tighter, and
  \<^verbatim>\<open>//\<close> rounds down, as \<open>div\<close> on \<open>int\<close> does.
\<close>

definition recent_avg :: "real list \<Rightarrow> real" where
  "recent_avg values =
     (if length values \<ge> 7 then mean (slice_from (- 7) values)
      else mean (slice_from ((- int (length values)) div 2) values))"

text \<open>The \<^verbatim>\<open>else values[0]\<close> is never reached: shorter inputs have returned before.\<close>

definition earlier_avg :: "real list \<Rightarrow> real" where
  "earlier_avg values =
     (if length values \<ge> 2 then mean (slice_to (int (length values) div 2) values)
      else hd values)"

definition change_pct :: "real list \<Rightarrow> real" where
  "change_pct values =
     (if earlier_avg values \<noteq> 0
      then (recent_avg values - earlier_avg values) / earlier_avg values * 100
      else 0)"

record trend_metrics =
  trend_direction :: string
  change_percentage :: real
  volatility :: real
  trend_strength :: real

datatype trend_result =
    InsufficientData \<comment> \<open>the dict \<^verbatim>\<open>{"trend": "insufficient_data"}\<close>\<close>
  | Metrics trend_metrics

definition calculate_trend_metrics :: "item list \<Rightarrow> trend_result" where
  "calculate_trend_metrics data =
     (if length data < 2 then InsufficientData
      else
        (let values = map get_value data in
         Metrics
           \<lparr>trend_direction =
              (if change_pct values > 0 then ''up''
               else if change_pct values < 0 then ''down''
               else ''stable''),
            change_percentage = change_pct values,
            volatility = (if length values > 1 then np_std values else 0),
            trend_strength = \<bar>change_pct values\<bar>\<rparr>))"

section \<open>Risk levels (models/schemas.py, ml\_models/ml\_service.py)\<close>

datatype RiskLevel = LOW | MEDIUM | HIGH | CRITICAL

fun RiskLevel_value :: "RiskLevel \<Rightarrow> string" where
  "RiskLevel_value LOW = ''low''"
| "RiskLevel_value MEDIUM = ''medium''"
| "RiskLevel_value HIGH = ''high''"
| "RiskLevel_value CRITICAL = ''critical''"

text \<open>\<^verbatim>\<open>RiskLevel(s)\<close>: the member whose value is \<open>s\<close>, if there is one.\<close>

definition RiskLevel_of_value :: "string \<Rightarrow> RiskLevel option" where
  "RiskLevel_of_value s = find (\<lambda>l. RiskLevel_value l = s) [LOW, MEDIUM, HIGH, CRITICAL]"

text \<open>The order of the levels, from the lowest risk to the highest.\<close>

fun level_rank :: "RiskLevel \<Rightarrow> nat" where
  "level_rank LOW = 0"
| "level_rank MEDIUM = 1"
| "level_rank HIGH = 2"
| "level_rank CRITICAL = 3"

text \<open>
  The \<^verbatim>\<open>risk_prediction\<close> branch of \<^verbatim>\<open>predict\<close>; \<^verbatim>\<open>request.features\<close> is a dict and
  \<^verbatim>\<open>features.get("supplier_risk", 50)\<close> reads the score.
\<close>

record risk_prediction =
  risk_score :: real
  risk_level :: string
  top_risks :: "string list"

definition supplier_risk :: "(string \<rightharpoonup> real) \<Rightarrow> real" where
  "supplier_risk features = (case features ''supplier_risk'' of None \<Rightarrow> 50 | Some v \<Rightarrow> v)"

definition predict_risk :: "(string \<rightharpoonup> real) \<Rightarrow> risk_prediction" where
  "predict_risk features =
     \<lparr>risk_score = min 100 (max 0 (supplier_risk features)),
      risk_level = (if supplier_risk features < 70 then ''medium'' else ''high''),
      top_risks = [''delivery_delay'', ''quality_issues'']\<rparr>"

text \<open>The level as a member of \<^verbatim>\<open>RiskLevel\<close>, read back from its value.\<close>

definition predicted_level :: "(string \<rightharpoonup> real) \<Rightarrow> RiskLevel option" where
  "predicted_level features = RiskLevel_of_value (risk_level (predict_risk features))"

section \<open>The specification's wording\<close>

text \<open>
  Definitions that follow the words of the specification, for comparison with the
  definitions taken from the code.
\<close>

text \<open>The last \<open>k\<close> points of a series, and its two halves: the first half has
  \<open>\<lfloor>n/2\<rfloor>\<close> points and the last half the remaining \<open>\<lceil>n/2\<rceil>\<close>.\<close>

definition last_points :: "nat \<Rightarrow> 'a list \<Rightarrow> 'a list" where
  "last_points k xs = drop (length xs - k) xs"

definition first_half :: "'a list \<Rightarrow> 'a list" where
  "first_half xs = take (length xs div 2) xs"

definition last_half :: "'a list \<Rightarrow> 'a list" where
  "last_half xs = drop (length xs div 2) xs"

text \<open>The points \<open>value[i-w+1 .. i]\<close> of a series, for \<open>i \<ge> w - 1\<close>.\<close>

definition window_values :: "nat \<Rightarrow> real list \<Rightarrow> nat \<Rightarrow> real list" where
  "window_values w xs i = map (\<lambda>j. xs ! j) [i + 1 - w ..< i + 1]"

text \<open>The population standard deviation divides by the number of points.\<close>

definition population_std :: "real list \<Rightarrow> real" where
  "population_std ys = sqrt (sum_list (map (\<lambda>y. (y - mean ys)\<^sup>2) ys) / real (length ys))"

text \<open>The standard deviation that divides by the number of points less one.\<close>

definition sample_std_dev :: "real list \<Rightarrow> real" where
  "sample_std_dev ys =
     sqrt (sum_list (map (\<lambda>y. (y - mean ys)\<^sup>2) ys) / (real (length ys) - 1))"

text \<open>The unweighted average of the generators' predictions for one day.\<close>

definition unweighted_average :: "real list list \<Rightarrow> nat \<Rightarrow> real" where
  "unweighted_average pl day = mean (map (\<lambda>pred. pred ! day) pl)"

text \<open>The risk buckets with the thresholds 25, 50 and 75.\<close>

definition spec_bucket :: "real \<Rightarrow> RiskLevel" where
  "spec_bucket s =
     (if s < 25 then LOW else if s < 50 then MEDIUM else if s < 75 then HIGH else CRITICAL)"

text \<open>The weights \<open>w\<^sub>i = conf\<^sub>i / \<Sum> conf\<^sub>j\<close>.\<close>

definition normalized_weights :: "real list \<Rightarrow> real list" where
  "normalized_weights confs = map (\<lambda>c. c / sum_list confs) confs"

text \<open>The sum \<open>\<Sum> w\<^sub>i * prediction\<^sub>i[d]\<close> over the generators.\<close>

definition weighted_sum :: "real list \<Rightarrow> real list list \<Rightarrow> nat \<Rightarrow> real" where
  "weighted_sum ws pl d = sum_list (map (\<lambda>(w, pred). w * pred ! d) (zip ws pl))"

text \<open>A record with its missing value filled in as 0.\<close>

definition fill_value :: "item \<Rightarrow> item" where
  "fill_value item = (if item ''value'' = None then item(''value'' \<mapsto> 0) else item)"

section \<open>Concrete inputs\<close>

text \<open>A generator's forecast with one confidence and its predictions, and a failed one.\<close>

definition forecast_of :: "string \<Rightarrow> real \<Rightarrow> real list \<Rightarrow> model_forecast" where
  "forecast_of name conf ps =
     \<lparr>predictions = Some ps, model_type = Some name, confidence = Some conf, error = None\<rparr>"

definition failed_forecast :: model_forecast where
  "failed_forecast =
     \<lparr>predictions = None, model_type = None, confidence = None, error = Some ''failed''\<rparr>"

text \<open>Scenario C: confidences 0.9, 0.8 and 0.82, day-0 predictions 100, 95 and 102.\<close>

definition scenario_C :: "(string \<times> model_forecast) list" where
  "scenario_C =
     [(''lstm'', forecast_of ''LSTM'' 0.9 [100]),
      (''random_forest'', forecast_of ''Random Forest'' 0.8 [95]),
      (''gradient_boosting'', forecast_of ''Gradient Boosting'' 0.82 [102])]"

definition two_models :: "(string \<times> model_forecast) list" where
  "two_models =
     [(''random_forest'', forecast_of ''Random Forest'' 1 [10, 20]),
      (''gradient_boosting'', forecast_of ''Gradient Boosting'' 3 [30, 40])]"

text \<open>Scenario D: every generator reports confidence 0.\<close>

definition zero_confidence :: "(string \<times> model_forecast) list" where
  "zero_confidence =
     [(''random_forest'', forecast_of ''Random Forest'' 0 [10]),
      (''gradient_boosting'', forecast_of ''Gradient Boosting'' 0 [20])]"

definition all_failed :: "(string \<times> model_forecast) list" where
  "all_failed = [(''random_forest'', failed_forecast)]"

definition one_failed :: "(string \<times> model_forecast) list" where
  "one_failed =
     [(''random_forest'', failed_forecast),
      (''gradient_boosting'', forecast_of ''Gradient Boosting'' 0.5 [10])]"

definition low_demand :: "(string \<times> model_forecast) list" where
  "low_demand = [(''random_forest'', forecast_of ''Random Forest'' 0.8 [0, 50])]"

text \<open>Two states of the generator: the draws 0, 1, 2, ... and the draws 0, 1, 0, 0, ...\<close>

definition counting_draws :: rng where
  "counting_draws = (\<lambda>i. real i)"

definition short_draws :: rng where
  "short_draws = (\<lambda>i. if i < 2 then real i else 0)"

text \<open>Scenario A: seven points at 100, then seven at 150.\<close>

definition scenario_A :: "item list" where
  "scenario_A = map (\<lambda>v. [''value'' \<mapsto> v])
     [100, 100, 100, 100, 100, 100, 100, 150, 150, 150, 150, 150, 150, 150]"

definition three_items :: "item list" where
  "three_items = [[''value'' \<mapsto> 10], [''value'' \<mapsto> 20], [''value'' \<mapsto> 40]]"

definition one_item :: "item list" where
  "one_item = [[''value'' \<mapsto> 5]]"

definition no_values :: "item list" where
  "no_values = [Map.empty, [''timestamp'' \<mapsto> 1], Map.empty]"

text \<open>A demand series of seven days with one spike.\<close>

definition spike :: "real list" where
  "spike = [0, 0, 0, 0, 0, 0, 7]"

section \<open>Ensemble combination: auxiliary facts\<close>

lemma foldl_fadd_Fin:
  "foldl fadd (Fin a) (map (\<lambda>(w, p). fmul w p) (zip (map Fin ws) dp)) =
     Fin (a + sum_list (map (\<lambda>(w, p). w * p) (zip ws dp)))"
proof (induction ws arbitrary: dp a)
  case Nil
  then show ?case by simp
next
  case (Cons w ws)
  then show ?case by (cases dp) (simp_all add: add.assoc)
qed

lemma weighted_prediction_Fin:
  "weighted_prediction (map Fin ws) dp = Fin (sum_list (map (\<lambda>(w, p). w * p) (zip ws dp)))"
  by (simp add: weighted_prediction_def foldl_fadd_Fin)

lemma normalize_weights_nonzero:
  "sum_list ws \<noteq> 0 \<Longrightarrow> normalize_weights ws = map Fin (normalized_weights ws)"
  by (simp add: normalize_weights_def normalized_weights_def fdiv_def)

lemma sum_list_divide: "sum_list (map (\<lambda>c. c / s) ws) = sum_list ws / (s::real)"
  by (induction ws) (simp_all add: add_divide_distrib)

lemma sum_list_pos_real:
  assumes "\<forall>c\<in>set ws. 0 \<le> c" and "\<exists>c\<in>set ws. 0 < c"
  shows "0 < sum_list (ws::real list)"
  using assms
proof (induction ws)
  case Nil
  then show ?case by simp
next
  case (Cons c ws)
  have nn: "0 \<le> sum_list ws" using Cons.prems(1) by (simp add: sum_list_nonneg)
  show ?case
  proof (cases "0 < c")
    case True
    with nn show ?thesis by simp
  next
    case False
    with Cons.prems have "\<exists>c\<in>set ws. 0 < c" and "0 \<le> c" by auto
    with Cons.IH Cons.prems(1) show ?thesis by simp
  qed
qed

lemma day_predictions_ok:
  "\<forall>p\<in>set pl. d < length p \<Longrightarrow> day_predictions pl d = Inr (map (\<lambda>p. p ! d) pl)"
  by (simp add: day_predictions_def list_all_iff)

lemma ensemble_loop_ok:
  "\<forall>d\<in>set ds. \<forall>p\<in>set pl. d < length p \<Longrightarrow>
   ensemble_loop ws pl ds =
     Inr (map (\<lambda>d. py_max0 (weighted_prediction ws (map (\<lambda>p. p ! d) pl))) ds)"
  by (induction ds) (simp_all add: day_predictions_ok)

lemma zip_map_day:
  "map (\<lambda>(w, p). w * p) (zip ws (map (\<lambda>p. p ! d) pl)) =
   map (\<lambda>(w, pred). w * pred ! d) (zip ws pl)"
  by (induction ws arbitrary: pl) (auto simp: zip_Cons1 split: list.splits)

lemma length_weights: "length (weights fs) = length (predictions_list fs)"
  by (induction fs rule: weights.induct) (simp_all split: option.splits)

lemma ensemble_general:
  assumes nonneg: "\<forall>c\<in>set (weights fs). 0 \<le> c"
    and pos: "\<exists>c\<in>set (weights fs). 0 < c"
    and len: "\<forall>p\<in>set (predictions_list fs). nat days \<le> length p"
  shows "normalize_weights (weights fs) = map Fin (normalized_weights (weights fs)) \<and>
     sum_list (normalized_weights (weights fs)) = 1 \<and>
     fst (create_ensemble_forecast fs days g) =
       Inr (map (\<lambda>d. Fin (max (weighted_sum (normalized_weights (weights fs))
                                  (predictions_list fs) d) 0)) [0..<nat days])"
proof -
  have S: "0 < sum_list (weights fs)" using nonneg pos by (rule sum_list_pos_real)
  then have nw: "normalize_weights (weights fs) = map Fin (normalized_weights (weights fs))"
    by (simp add: normalize_weights_nonzero)
  from S have one: "sum_list (normalized_weights (weights fs)) = 1"
    by (simp add: normalized_weights_def sum_list_divide)
  from pos have "weights fs \<noteq> []" by auto
  then have ne: "predictions_list fs \<noteq> []" using length_weights [of fs] by auto
  have "\<forall>d\<in>set [0..<nat days]. \<forall>p\<in>set (predictions_list fs). d < length p"
    using len by auto
  then have "ensemble_loop (normalize_weights (weights fs)) (predictions_list fs) [0..<nat days] =
     Inr (map (\<lambda>d. py_max0 (weighted_prediction (normalize_weights (weights fs))
        (map (\<lambda>p. p ! d) (predictions_list fs)))) [0..<nat days])"
    by (rule ensemble_loop_ok)
  then have "fst (create_ensemble_forecast fs days g) =
       Inr (map (\<lambda>d. Fin (max (weighted_sum (normalized_weights (weights fs))
                                  (predictions_list fs) d) 0)) [0..<nat days])"
    using ne by (simp add: create_ensemble_forecast_def nw weighted_prediction_Fin zip_map_day
        weighted_sum_def max_def)
  with nw one show ?thesis by simp
qed

lemma scenario_C_weights: "weights scenario_C = [0.9, 0.8, 0.82]"
  by (simp add: scenario_C_def forecast_of_def get_confidence_def)

lemma scenario_C_predictions: "predictions_list scenario_C = [[100], [95], [102]]"
  by (simp add: scenario_C_def forecast_of_def)

lemma scenario_C_normalized:
  "normalized_weights (weights scenario_C) = [5 / 14, 20 / 63, 41 / 126]"
  by (simp add: scenario_C_weights normalized_weights_def)

lemma scenario_C_result:
  "fst (create_ensemble_forecast scenario_C 1 g) = Inr [Fin (6241 / 63)]"
  by (simp add: create_ensemble_forecast_def scenario_C_weights scenario_C_predictions
      normalize_weights_def fdiv_def day_predictions_def weighted_prediction_def)

lemma two_models_weights: "weights two_models = [1, 3]"
  by (simp add: two_models_def forecast_of_def get_confidence_def)

lemma two_models_predictions: "predictions_list two_models = [[10, 20], [30, 40]]"
  by (simp add: two_models_def forecast_of_def)

lemma fallback_fst:
  "fst (fallback_predictions n g) = map (\<lambda>i. 100 + (0 + 10 * g i)) [0..<n]"
proof (induction n arbitrary: g)
  case 0
  then show ?case by simp
next
  case (Suc n)
  have "map (\<lambda>i. 100 + (0 + 10 * g i)) [0..<Suc n] =
        (100 + (0 + 10 * g 0)) # map (\<lambda>i. 100 + (0 + 10 * g (Suc i))) [0..<n]"
    by (simp only: upt_conv_Cons [of 0 "Suc n"] map_Suc_upt [symmetric]) (simp add: comp_def)
  then show ?case
    using Suc.IH [of "\<lambda>i. g (Suc i)"]
    by (simp add: random_normal_def split_beta Let_def)
qed

lemma predictions_list_filter:
  "predictions_list (filter succeeded fs) = predictions_list fs"
  by (induction fs rule: predictions_list.induct)
    (simp_all add: succeeded_def split: option.splits)

lemma weights_filter: "weights (filter succeeded fs) = weights fs"
  by (induction fs rule: weights.induct) (simp_all add: succeeded_def split: option.splits)

lemma weights_succeeded:
  "weights fs = map (\<lambda>nf. get_confidence (snd nf)) (filter succeeded fs)"
  by (induction fs rule: weights.induct) (simp_all add: succeeded_def split: option.splits)

lemma create_filter:
  "create_ensemble_forecast (filter succeeded fs) days g = create_ensemble_forecast fs days g"
  by (simp add: create_ensemble_forecast_def predictions_list_filter weights_filter)

lemma create_fallback:
  assumes "predictions_list fs = []"
  shows "fst (create_ensemble_forecast fs days g) =
     Inr (map (\<lambda>i. Fin (100 + (0 + 10 * g i))) [0..<nat days])"
  using assms by (simp add: create_ensemble_forecast_def split_beta fallback_fst comp_def)

lemma py_max0_floor: "py_max0 y \<noteq> NInf \<and> (\<forall>v. py_max0 y = Fin v \<longrightarrow> 0 \<le> v)"
  by (cases y) auto

lemma ensemble_loop_floor:
  "ensemble_loop ws pl ds = Inr pts \<Longrightarrow> \<forall>x\<in>set pts. \<exists>y. x = py_max0 y"
  by (induction ds arbitrary: pts) (auto split: sum.splits)

section \<open>Ensemble combination: the claims\<close>

text \<open>
  C1. For every set of generator forecasts whose confidences are non-negative with at
  least one positive, and whose prediction lists cover the horizon, the weights the
  ensemble uses are the confidences divided by their sum, these weights sum to 1, and
  the point of each day is the weighted sum of that day's predictions, floored at 0.
  For the confidences 0.9, 0.8, 0.82 and the day-0 predictions 100, 95, 102 the weights
  are 5/14, 20/63 and 41/126, that is 0.357, 0.317 and 0.325 to three places, and the
  day-0 point is 6241/63, within 0.07 of 99.0.
\<close>

theorem ensemble_combination:
  "(\<forall>fs days g.
      (\<forall>c\<in>set (weights fs). 0 \<le> c) \<and> (\<exists>c\<in>set (weights fs). 0 < c) \<and>
      (\<forall>p\<in>set (predictions_list fs). nat days \<le> length p) \<longrightarrow>
      normalize_weights (weights fs) = map Fin (normalized_weights (weights fs)) \<and>
      sum_list (normalized_weights (weights fs)) = 1 \<and>
      fst (create_ensemble_forecast fs days g) =
        Inr (map (\<lambda>d. Fin (max (weighted_sum (normalized_weights (weights fs))
                                   (predictions_list fs) d) 0)) [0..<nat days])) \<and>
   weights scenario_C = [0.9, 0.8, 0.82] \<and>
   predictions_list scenario_C = [[100], [95], [102]] \<and>
   normalized_weights (weights scenario_C) = [5 / 14, 20 / 63, 41 / 126] \<and>
   \<bar>5 / 14 - 0.357\<bar> < (0.0005::real) \<and> \<bar>20 / 63 - 0.317\<bar> < (0.0005::real) \<and>
   \<bar>41 / 126 - 0.325\<bar> < (0.0005::real) \<and>
   (\<forall>g. fst (create_ensemble_forecast scenario_C 1 g) = Inr [Fin (6241 / 63)]) \<and>
   \<bar>6241 / 63 - 99.0\<bar> < (0.07::real)"
proof -
  have general: "\<forall>fs days g.
      (\<forall>c\<in>set (weights fs). 0 \<le> c) \<and> (\<exists>c\<in>set (weights fs). 0 < c) \<and>
      (\<forall>p\<in>set (predictions_list fs). nat days \<le> length p) \<longrightarrow>
      normalize_weights (weights fs) = map Fin (normalized_weights (weights fs)) \<and>
      sum_list (normalized_weights (weights fs)) = 1 \<and>
      fst (create_ensemble_forecast fs days g) =
        Inr (map (\<lambda>d. Fin (max (weighted_sum (normalized_weights (weights fs))
                                   (predictions_list fs) d) 0)) [0..<nat days])"
  proof (intro allI impI)
    fix fs :: "(string \<times> model_forecast) list" and days :: int and g :: rng
    assume h: "(\<forall>c\<in>set (weights fs). 0 \<le> c) \<and> (\<exists>c\<in>set (weights fs). 0 < c) \<and>
      (\<forall>p\<in>set (predictions_list fs). nat days \<le> length p)"
    then have 1: "\<forall>c\<in>set (weights fs). 0 \<le> c" and 2: "\<exists>c\<in>set (weights fs). 0 < c"
      and 3: "\<forall>p\<in>set (predictions_list fs). nat days \<le> length p"
      by blast+
    from 1 2 3 show "normalize_weights (weights fs) = map Fin (normalized_weights (weights fs)) \<and>
      sum_list (normalized_weights (weights fs)) = 1 \<and>
      fst (create_ensemble_forecast fs days g) =
        Inr (map (\<lambda>d. Fin (max (weighted_sum (normalized_weights (weights fs))
                                   (predictions_list fs) d) 0)) [0..<nat days])"
      by (rule ensemble_general)
  qed
  have approx: "\<bar>5 / 14 - 0.357\<bar> < (0.0005::real)" "\<bar>20 / 63 - 0.317\<bar> < (0.0005::real)"
    "\<bar>41 / 126 - 0.325\<bar> < (0.0005::real)" "\<bar>6241 / 63 - 99.0\<bar> < (0.07::real)"
    by simp_all
  show ?thesis
    using general approx scenario_C_weights scenario_C_predictions scenario_C_normalized
      scenario_C_result
    by blast
qed

theorem ensemble_combination_witness:
  "list_all (\<lambda>c. 0 \<le> c) (weights two_models) \<and> list_ex (\<lambda>c. 0 < c) (weights two_models) \<and>
   list_all (\<lambda>p. nat 2 \<le> length p) (predictions_list two_models) \<and>
   normalize_weights (weights two_models) = [Fin (1 / 4), Fin (3 / 4)] \<and>
   sum_list (normalized_weights (weights two_models)) = 1 \<and>
   fst (create_ensemble_forecast two_models 2 counting_draws) = Inr [Fin 25, Fin 35]"
  using ensemble_combination [THEN conjunct1, rule_format, of two_models 2 counting_draws]
  by (simp add: two_models_weights two_models_predictions normalized_weights_def
      weighted_sum_def upt_conv_Cons)

text \<open>
  C3. When every generator reports confidence 0 the code does not return the unweighted
  average: the division by the zero sum makes every weight \<^verbatim>\<open>nan\<close>, and so every
  point. For the predictions 10 and 20 the unweighted average is 15.
\<close>

theorem zero_confidence_not_averaged:
  "weights zero_confidence = [0, 0] \<and>
   predictions_list zero_confidence = [[10], [20]] \<and>
   fst (create_ensemble_forecast zero_confidence 1 g) = Inr [NaN] \<and>
   unweighted_average (predictions_list zero_confidence) 0 = 15"
  by (simp add: create_ensemble_forecast_def zero_confidence_def forecast_of_def
      get_confidence_def normalize_weights_def fdiv_def day_predictions_def
      weighted_prediction_def unweighted_average_def mean_def)

text \<open>
  C4, as amended. Generators without predictions are dropped: the ensemble of all
  forecasts is the ensemble of the successful ones, and the weights that are normalised
  are the confidences of the successful ones. When no generator has predictions, the
  ensemble does not fail: it returns one value for each day, 100 plus a draw of
  \<^verbatim>\<open>normal(0, 10)\<close>.
\<close>

theorem ensemble_failure_semantics:
  "create_ensemble_forecast (filter succeeded fs) days g = create_ensemble_forecast fs days g \<and>
   weights fs = map (\<lambda>nf. get_confidence (snd nf)) (filter succeeded fs) \<and>
   (filter succeeded fs \<noteq> [] \<longrightarrow>
      snd (create_ensemble_forecast fs days g) = g \<and>
      fst (create_ensemble_forecast fs days g) =
        ensemble_loop (normalize_weights (weights fs)) (predictions_list fs) [0..<nat days]) \<and>
   (filter succeeded fs = [] \<longrightarrow>
      fst (create_ensemble_forecast fs days g) =
        Inr (map (\<lambda>i. Fin (100 + (0 + 10 * g i))) [0..<nat days]))"
proof -
  have ne: "predictions_list fs = [] \<longleftrightarrow> filter succeeded fs = []"
    using length_weights [of fs] weights_succeeded [of fs] by (metis length_0_conv length_map)
  show ?thesis
    using ne create_fallback [of fs days g]
    by (simp add: create_filter weights_succeeded [symmetric]) (simp add: create_ensemble_forecast_def)
qed

theorem ensemble_failure_semantics_witness:
  "filter succeeded one_failed = [(''gradient_boosting'', forecast_of ''Gradient Boosting'' 0.5 [10])] \<and>
   weights one_failed = [0.5] \<and>
   fst (create_ensemble_forecast one_failed 1 counting_draws) = Inr [Fin 10] \<and>
   filter succeeded all_failed = [] \<and>
   fst (create_ensemble_forecast all_failed 2 counting_draws) = Inr [Fin 100, Fin 110]"
  using ensemble_failure_semantics [of one_failed 1 counting_draws]
    ensemble_failure_semantics [of all_failed 2 counting_draws]
  by (simp add: one_failed_def all_failed_def succeeded_def forecast_of_def failed_forecast_def
      get_confidence_def normalize_weights_def fdiv_def day_predictions_def
      weighted_prediction_def counting_draws_def upt_conv_Cons)

theorem no_generators_returns_fallback:
  "predictions_list all_failed = [] \<and>
   fst (create_ensemble_forecast all_failed 2 counting_draws) = Inr [Fin 100, Fin 110] \<and>
   fst (create_ensemble_forecast all_failed 2 counting_draws) \<noteq> Inl NoGeneratorsAvailableError"
  by (simp add: create_ensemble_forecast_def all_failed_def failed_forecast_def split_beta
      fallback_fst counting_draws_def upt_conv_Cons)

text \<open>
  C5. The bounds of every day are the point less, and the point plus, 1.96 times one and
  the same standard error (the constant 5), so the lower bound is at most the point and
  the point at most the upper bound.
\<close>

theorem confidence_interval_containment:
  "std_error = 5 \<and>
   length (lower_bound (calculate_confidence_intervals forecasts features)) = length forecasts \<and>
   length (upper_bound (calculate_confidence_intervals forecasts features)) = length forecasts \<and>
   (\<forall>d<length forecasts.
      lower_bound (calculate_confidence_intervals forecasts features) ! d =
        forecasts ! d - 1.96 * std_error \<and>
      upper_bound (calculate_confidence_intervals forecasts features) ! d =
        forecasts ! d + 1.96 * std_error \<and>
      lower_bound (calculate_confidence_intervals forecasts features) ! d \<le> forecasts ! d \<and>
      forecasts ! d \<le> upper_bound (calculate_confidence_intervals forecasts features) ! d)"
  by (simp add: calculate_confidence_intervals_def std_error_def)

theorem confidence_interval_containment_witness:
  "(1::nat) < length [120, 3 :: real] \<and>
   lower_bound (calculate_confidence_intervals [120, 3] ()) ! 1 = - 6.8 \<and>
   upper_bound (calculate_confidence_intervals [120, 3] ()) ! 1 = 12.8 \<and>
   lower_bound (calculate_confidence_intervals [120, 3] ()) ! 1 \<le> 3 \<and>
   3 \<le> upper_bound (calculate_confidence_intervals [120, 3] ()) ! 1"
  using confidence_interval_containment [of "[120, 3]" "()", THEN conjunct2, THEN conjunct2,
      THEN conjunct2, rule_format, of 1]
  by (simp add: std_error_def)

text \<open>
  C10. The lower bound is not floored at 0: it is the point less 1.96 times the standard
  error 5, so it is negative whenever the point is below 9.8. The points of the weighted
  ensemble are floored at 0: none is a negative number or \<^verbatim>\<open>-inf\<close>.
\<close>

theorem lower_bound_not_floored:
  "(\<forall>d<length forecasts.
      lower_bound (calculate_confidence_intervals forecasts features) ! d =
        forecasts ! d - 1.96 * 5.0 \<and>
      (forecasts ! d < 9.8 \<longrightarrow>
         lower_bound (calculate_confidence_intervals forecasts features) ! d < 0)) \<and>
   (predictions_list fs \<noteq> [] \<and> fst (create_ensemble_forecast fs days g) = Inr points \<longrightarrow>
      (\<forall>x\<in>set points. x \<noteq> NInf \<and> (\<forall>v. x = Fin v \<longrightarrow> 0 \<le> v)))"
proof -
  have "\<forall>x\<in>set points. x \<noteq> NInf \<and> (\<forall>v. x = Fin v \<longrightarrow> 0 \<le> v)"
    if "predictions_list fs \<noteq> []" and "fst (create_ensemble_forecast fs days g) = Inr points"
  proof -
    from that have "ensemble_loop (normalize_weights (weights fs)) (predictions_list fs)
        [0..<nat days] = Inr points"
      by (simp add: create_ensemble_forecast_def)
    then have "\<forall>x\<in>set points. \<exists>y. x = py_max0 y" by (rule ensemble_loop_floor)
    then show ?thesis using py_max0_floor by metis
  qed
  then show ?thesis
    by (simp add: calculate_confidence_intervals_def std_error_def)
qed

theorem lower_bound_not_floored_witness:
  "predictions_list low_demand \<noteq> [] \<and>
   fst (create_ensemble_forecast low_demand 2 counting_draws) = Inr [Fin 0, Fin 50] \<and>
   (0::nat) < length [0, 50 :: real] \<and> [0, 50 :: real] ! 0 < 9.8 \<and>
   lower_bound (calculate_confidence_intervals [0, 50] ()) ! 0 = - 9.8 \<and>
   lower_bound (calculate_confidence_intervals [0, 50] ()) ! 0 < 0"
  using lower_bound_not_floored [of "[0, 50]" "()" low_demand 2 counting_draws "[Fin 0, Fin 50]",
      THEN conjunct1, rule_format, of 0]
    lower_bound_not_floored [of "[0, 50]" "()" low_demand 2 counting_draws "[Fin 0, Fin 50]",
      THEN conjunct2]
  by (simp add: create_ensemble_forecast_def low_demand_def forecast_of_def get_confidence_def
      normalize_weights_def fdiv_def day_predictions_def weighted_prediction_def
      upt_conv_Cons)

section \<open>The generators and the random number generator\<close>

lemma draw_predictions_fst:
  "fst (draw_predictions b l s n g) =
     map (\<lambda>i. if 0 > b + (l + s * g i) then 0 else b + (l + s * g i)) [0..<n]"
proof (induction n arbitrary: g)
  case 0
  then show ?case by simp
next
  case (Suc n)
  let ?v = "\<lambda>g i. if 0 > b + (l + s * g i) then 0 else b + (l + s * g i)"
  have "map (?v g) [0..<Suc n] = ?v g 0 # map (?v (\<lambda>i. g (Suc i))) [0..<n]"
    by (simp only: upt_conv_Cons [of 0 "Suc n"] map_Suc_upt [symmetric]) (simp add: comp_def)
  then show ?case
    using Suc.IH [of "\<lambda>i. g (Suc i)"]
    by (simp add: random_normal_def split_beta Let_def)
qed

lemma draw_predictions_snd: "snd (draw_predictions b l s n g) = (\<lambda>i. g (i + n))"
proof (induction n arbitrary: g)
  case 0
  then show ?case by simp
next
  case (Suc n)
  show ?case
    using Suc.IH [of "\<lambda>i. g (Suc i)"]
    by (simp add: random_normal_def split_beta Let_def)
qed

lemma random_forest_agree:
  assumes "\<forall>i<nat days. g1 i = g2 i"
  shows "fst (predict_with_random_forest f days g1) = fst (predict_with_random_forest f days g2)"
  using assms by (simp add: predict_with_random_forest_def split_beta draw_predictions_fst)

lemma generate_forecasts_agree:
  assumes "\<forall>i<(if tf then 3 else 2) * nat days. g1 i = g2 i"
  shows "fst (generate_forecasts tf f days g1) = fst (generate_forecasts tf f days g2)"
proof -
  let ?n = "nat days"
  have a: "\<forall>i<?n. g1 i = g2 i" and b: "\<forall>i<?n. g1 (i + ?n) = g2 (i + ?n)"
    using assms by (auto split: if_splits)
  have c: "tf \<Longrightarrow> \<forall>i<?n. g1 (i + ?n + ?n) = g2 (i + ?n + ?n)"
    using assms by auto
  show ?thesis
  proof (cases tf)
    case True
    with a b c show ?thesis
      by (simp add: generate_forecasts_def predict_with_lstm_def predict_with_random_forest_def
          predict_with_gradient_boosting_def split_beta Let_def draw_predictions_fst
          draw_predictions_snd add.assoc)
  next
    case False
    with a b show ?thesis
      by (simp add: generate_forecasts_def predict_with_random_forest_def
          predict_with_gradient_boosting_def split_beta Let_def draw_predictions_fst
          draw_predictions_snd)
  qed
qed

lemma generate_forecasts_nonempty:
  "predictions_list (fst (generate_forecasts tf f days g)) \<noteq> []"
  by (simp add: generate_forecasts_def predict_with_lstm_def predict_with_random_forest_def
      predict_with_gradient_boosting_def split_beta Let_def)

lemma ensemble_forecaster_agree:
  assumes "\<forall>i<(if tf then 3 else 2) * nat days. g1 i = g2 i"
  shows "fst (ensemble_forecaster tf f days g1) = fst (ensemble_forecaster tf f days g2)"
proof -
  have "fst (generate_forecasts tf f days g1) = fst (generate_forecasts tf f days g2)"
    using assms by (rule generate_forecasts_agree)
  moreover have "predictions_list (fst (generate_forecasts tf f days g1)) \<noteq> []"
    by (rule generate_forecasts_nonempty)
  ultimately show ?thesis
    by (simp add: ensemble_forecaster_def split_beta create_ensemble_forecast_def)
qed

lemma first_run:
  "ensemble_forecaster False () 1 counting_draws =
     (Inr [Fin (8592 / 81)], \<lambda>i. counting_draws (Suc (Suc i)))"
  by (simp add: ensemble_forecaster_def generate_forecasts_def predict_with_random_forest_def
      predict_with_gradient_boosting_def split_beta Let_def random_normal_def
      create_ensemble_forecast_def get_confidence_def
      normalize_weights_def fdiv_def day_predictions_def weighted_prediction_def
      counting_draws_def)

lemma second_run:
  "fst (ensemble_forecaster False () 1 (\<lambda>i. counting_draws (Suc (Suc i)))) =
     Inr [Fin (9806 / 81)]"
  by (simp add: ensemble_forecaster_def generate_forecasts_def predict_with_random_forest_def
      predict_with_gradient_boosting_def split_beta Let_def random_normal_def
      create_ensemble_forecast_def get_confidence_def
      normalize_weights_def fdiv_def day_predictions_def weighted_prediction_def
      counting_draws_def)

lemma short_run:
  "fst (ensemble_forecaster False () 1 short_draws) = Inr [Fin (8592 / 81)]"
  by (simp add: ensemble_forecaster_def generate_forecasts_def predict_with_random_forest_def
      predict_with_gradient_boosting_def split_beta Let_def random_normal_def
      create_ensemble_forecast_def get_confidence_def
      normalize_weights_def fdiv_def day_predictions_def weighted_prediction_def
      short_draws_def)

text \<open>
  C7, as amended. The point predictions are a function of the features, the horizon, the
  generator set and the state of the random number generator: two runs whose generator
  states agree on the draws that are consumed (one for each day and each generator that
  runs) produce identical point predictions, and so does one Random Forest run. The
  combination step reads the random number generator only when no generator has
  predictions.
\<close>

theorem forecast_deterministic_given_rng:
  "((\<forall>i<(if tf then 3 else 2) * nat days. g1 i = g2 i) \<longrightarrow>
      fst (ensemble_forecaster tf features days g1) =
      fst (ensemble_forecaster tf features days g2)) \<and>
   ((\<forall>i<nat days. g1 i = g2 i) \<longrightarrow>
      fst (predict_with_random_forest features days g1) =
      fst (predict_with_random_forest features days g2)) \<and>
   (predictions_list fs \<noteq> [] \<longrightarrow>
      create_ensemble_forecast fs days g1 = (fst (create_ensemble_forecast fs days g2), g1))"
proof (intro conjI impI)
  assume "\<forall>i<(if tf then 3 else 2) * nat days. g1 i = g2 i"
  then show "fst (ensemble_forecaster tf features days g1) =
      fst (ensemble_forecaster tf features days g2)"
    by (rule ensemble_forecaster_agree)
next
  assume "\<forall>i<nat days. g1 i = g2 i"
  then show "fst (predict_with_random_forest features days g1) =
      fst (predict_with_random_forest features days g2)"
    by (rule random_forest_agree)
next
  assume "predictions_list fs \<noteq> []"
  then show "create_ensemble_forecast fs days g1 = (fst (create_ensemble_forecast fs days g2), g1)"
    by (simp add: create_ensemble_forecast_def)
qed

theorem forecast_deterministic_given_rng_witness:
  "counting_draws 0 = short_draws 0 \<and> counting_draws 1 = short_draws 1 \<and>
   counting_draws 2 \<noteq> short_draws 2 \<and>
   fst (ensemble_forecaster False () 1 counting_draws) = Inr [Fin (8592 / 81)] \<and>
   fst (ensemble_forecaster False () 1 short_draws) = Inr [Fin (8592 / 81)]"
proof -
  have agree: "\<forall>i<(if False then 3 else 2) * nat 1. counting_draws i = short_draws i"
    by (simp add: counting_draws_def short_draws_def)
  have "fst (ensemble_forecaster False () 1 counting_draws) =
        fst (ensemble_forecaster False () 1 short_draws)"
    using forecast_deterministic_given_rng
      [of False 1 counting_draws short_draws "()" two_models, THEN conjunct1] agree
    by blast
  moreover have "counting_draws 0 = short_draws 0 \<and> counting_draws 1 = short_draws 1 \<and>
      counting_draws 2 \<noteq> short_draws 2"
    by (simp add: counting_draws_def short_draws_def)
  ultimately show ?thesis
    by (simp add: short_run)
qed

theorem forecaster_two_runs_differ:
  "fst (ensemble_forecaster False () 1 counting_draws) = Inr [Fin (8592 / 81)] \<and>
   fst (ensemble_forecaster False () 1 (snd (ensemble_forecaster False () 1 counting_draws))) =
     Inr [Fin (9806 / 81)] \<and>
   fst (ensemble_forecaster False () 1 counting_draws) \<noteq>
   fst (ensemble_forecaster False () 1 (snd (ensemble_forecaster False () 1 counting_draws)))"
  by (simp add: first_run second_run)

section \<open>Rolling statistics\<close>

lemma length_window_values: "w \<le> i + 1 \<Longrightarrow> length (window_values w xs i) = w"
  unfolding window_values_def by simp arith

lemma window_take_drop:
  assumes "i < length xs" and "w \<le> i + 1"
  shows "take w (drop (i + 1 - w) xs) = window_values w xs i"
proof (rule nth_equalityI)
  show "length (take w (drop (i + 1 - w) xs)) = length (window_values w xs i)"
    using assms by (simp add: length_window_values)
next
  fix j assume "j < length (take w (drop (i + 1 - w) xs))"
  then have j: "j < w" by simp
  with assms have "i + 1 - w + j < i + 1" by arith
  with j assms show "take w (drop (i + 1 - w) xs) ! j = window_values w xs i ! j"
    unfolding window_values_def by (simp del: upt_Suc)
qed

lemma rolling_mean_nth:
  assumes "i < length xs"
  shows "rolling_mean w xs ! i =
     (if i + 1 < w then None else Some (mean (window_values w xs i)))"
proof (cases "i + 1 < w")
  case True
  with assms show ?thesis by (simp add: rolling_mean_def rolling_window_def)
next
  case False
  then have "w \<le> i + 1" by simp
  with assms have "take w (drop (i + 1 - w) xs) = window_values w xs i"
    by (rule window_take_drop)
  with False assms show ?thesis by (simp add: rolling_mean_def rolling_window_def)
qed

lemma rolling_std_nth:
  assumes "i < length xs" and "2 \<le> w"
  shows "rolling_std w xs ! i =
     (if i + 1 < w then None else Some (sample_std_dev (window_values w xs i)))"
proof (cases "i + 1 < w")
  case True
  with assms show ?thesis by (simp add: rolling_std_def rolling_window_def)
next
  case False
  then have w: "w \<le> i + 1" by simp
  with assms(1) have "take w (drop (i + 1 - w) xs) = window_values w xs i"
    by (rule window_take_drop)
  moreover have "length (window_values w xs i) = w" using w by (rule length_window_values)
  moreover have "real (w - 1) = real w - 1" using assms(2) by simp
  ultimately show ?thesis
    using False assms
    by (simp add: rolling_std_def rolling_window_def sample_std_def sample_std_dev_def)
qed

lemma spike_window: "window_values 7 spike 6 = spike"
  by (simp add: window_values_def spike_def upt_conv_Cons)

lemma spike_mean: "mean spike = 1"
  by (simp add: spike_def mean_def)

lemma spike_deviations: "sum_list (map (\<lambda>y. (y - mean spike)\<^sup>2) spike) = 42"
  by (simp add: spike_mean) (simp add: spike_def)

lemma spike_stds:
  "sample_std_dev spike = sqrt 7 \<and> population_std spike = sqrt 6"
  by (simp add: sample_std_dev_def population_std_def spike_deviations) (simp add: spike_def)

text \<open>
  C6, as amended. The rolling columns are computed for the windows 7, 14 and 30. For
  each of them the rolling mean at index \<open>i\<close> is defined iff \<open>i \<ge> w - 1\<close> and is then the
  arithmetic mean of \<open>value[i-w+1 .. i]\<close>; the rolling standard deviation is defined for
  the same indices and is the standard deviation of \<open>value[i-w+1 .. i]\<close> that divides by
  \<open>w - 1\<close> (the sample standard deviation).
\<close>

theorem rolling_features:
  "demand_rolling_features demand =
     [(7, rolling_mean 7 demand, rolling_std 7 demand),
      (14, rolling_mean 14 demand, rolling_std 14 demand),
      (30, rolling_mean 30 demand, rolling_std 30 demand)] \<and>
   length (rolling_mean w demand) = length demand \<and>
   length (rolling_std w demand) = length demand \<and>
   (w \<in> {7, 14, 30} \<and> i < length demand \<longrightarrow>
      ((rolling_mean w demand ! i \<noteq> None) = (w - 1 \<le> i)) \<and>
      ((rolling_std w demand ! i \<noteq> None) = (w - 1 \<le> i)) \<and>
      (w - 1 \<le> i \<longrightarrow>
         length (window_values w demand i) = w \<and>
         rolling_mean w demand ! i = Some (mean (window_values w demand i)) \<and>
         rolling_std w demand ! i = Some (sample_std_dev (window_values w demand i))))"
proof -
  have "((rolling_mean w demand ! i \<noteq> None) = (w - 1 \<le> i)) \<and>
      ((rolling_std w demand ! i \<noteq> None) = (w - 1 \<le> i)) \<and>
      (w - 1 \<le> i \<longrightarrow>
         length (window_values w demand i) = w \<and>
         rolling_mean w demand ! i = Some (mean (window_values w demand i)) \<and>
         rolling_std w demand ! i = Some (sample_std_dev (window_values w demand i)))"
    if w: "w \<in> {7, 14, 30}" and i: "i < length demand"
  proof -
    from w have w2: "2 \<le> w" by auto
    then have iff: "(i + 1 < w) = (\<not> w - 1 \<le> i)" by arith
    have "w - 1 \<le> i \<Longrightarrow> length (window_values w demand i) = w"
      using w2 by (simp add: length_window_values)
    then show ?thesis
      using rolling_mean_nth [OF i, of w] rolling_std_nth [OF i w2] iff by simp
  qed
  then show ?thesis
    by (simp add: demand_rolling_features_def rolling_mean_def rolling_std_def)
qed

theorem rolling_features_witness:
  "(7::nat) \<in> {7, 14, 30} \<and> 6 < length spike \<and> 3 < length spike \<and>
   rolling_mean 7 spike ! 3 = None \<and> rolling_std 7 spike ! 3 = None \<and>
   rolling_mean 7 spike ! 6 = Some 1 \<and> rolling_std 7 spike ! 6 = Some (sqrt 7)"
  using rolling_features [of spike 7 6] rolling_features [of spike 7 3]
  by (simp add: spike_window spike_mean spike_stds) (simp add: spike_def)

theorem rolling_std_not_population:
  "rolling_std 7 spike ! 6 = Some (sqrt 7) \<and>
   population_std (window_values 7 spike 6) = sqrt 6 \<and>
   rolling_std 7 spike ! 6 \<noteq> Some (population_std (window_values 7 spike 6))"
proof -
  have "6 < length spike" and "(2::nat) \<le> 7" by (simp_all add: spike_def)
  then have "rolling_std 7 spike ! 6 = Some (sample_std_dev (window_values 7 spike 6))"
    by (simp add: rolling_std_nth)
  then show ?thesis by (simp add: spike_window spike_stds)
qed

section \<open>Trend metrics\<close>

lemma slice_from_last: "0 < k \<Longrightarrow> slice_from (- int k) xs = last_points k xs"
proof -
  have "nat (max 0 (int (length xs) - int k)) = length xs - k" by arith
  then show "0 < k \<Longrightarrow> slice_from (- int k) xs = last_points k xs"
    by (simp add: slice_from_def slice_bound_def last_points_def Let_def)
qed

lemma slice_from_half: "slice_from ((- int (length xs)) div 2) xs = last_half xs"
proof -
  have "nat (if (- int (length xs)) div 2 < 0
             then max 0 (int (length xs) + (- int (length xs)) div 2)
             else min ((- int (length xs)) div 2) (int (length xs))) = length xs div 2"
    by (simp add: max_def min_def) arith
  then show ?thesis by (simp add: slice_from_def slice_bound_def last_half_def Let_def)
qed

lemma slice_to_half: "slice_to (int (length xs) div 2) xs = first_half xs"
proof -
  have "nat (min (int (length xs) div 2) (int (length xs))) = length xs div 2"
    by (simp add: min_def) arith
  then show ?thesis
    by (simp add: slice_to_def slice_bound_def first_half_def Let_def)
qed

lemma recent_avg_spec:
  "recent_avg vs = (if 7 \<le> length vs then mean (last_points 7 vs) else mean (last_half vs))"
  using slice_from_last [of 7 vs] by (simp add: recent_avg_def slice_from_half)

lemma earlier_avg_spec: "2 \<le> length vs \<Longrightarrow> earlier_avg vs = mean (first_half vs)"
  by (simp add: earlier_avg_def slice_to_half)

lemma first_half_two: "length vs = 2 \<Longrightarrow> mean (first_half vs) = vs ! 0"
  by (cases vs) (simp_all add: first_half_def mean_def)

lemma halves_nonempty:
  "2 \<le> length vs \<Longrightarrow> first_half vs \<noteq> [] \<and> last_half vs \<noteq> [] \<and> last_points 7 vs \<noteq> []"
  by (auto simp add: first_half_def last_half_def last_points_def)

lemma trend_general:
  assumes "2 \<le> length data"
  shows "calculate_trend_metrics data =
     Metrics \<lparr>trend_direction =
                (if change_pct (map get_value data) > 0 then ''up''
                 else if change_pct (map get_value data) < 0 then ''down''
                 else ''stable''),
              change_percentage = change_pct (map get_value data),
              volatility = np_std (map get_value data),
              trend_strength = \<bar>change_pct (map get_value data)\<bar>\<rparr>"
  using assms by (simp add: calculate_trend_metrics_def Let_def)

lemma scenario_A_values:
  "map get_value scenario_A =
     [100, 100, 100, 100, 100, 100, 100, 150, 150, 150, 150, 150, 150, 150]"
  by (simp add: scenario_A_def get_value_def)

lemma scenario_A_avgs:
  "recent_avg (map get_value scenario_A) = 150 \<and>
   earlier_avg (map get_value scenario_A) = 100 \<and>
   change_pct (map get_value scenario_A) = 50"
  by (simp add: scenario_A_values change_pct_def recent_avg_def earlier_avg_def
      slice_from_def slice_to_def slice_bound_def mean_def)

lemma scenario_A_volatility: "np_std (map get_value scenario_A) = 25"
proof -
  have "np_std (map get_value scenario_A) = sqrt (25\<^sup>2)"
    by (simp add: scenario_A_values np_std_def mean_def)
  then show ?thesis by simp
qed

lemma scenario_A_result:
  "calculate_trend_metrics scenario_A =
     Metrics \<lparr>trend_direction = ''up'', change_percentage = 50, volatility = 25,
              trend_strength = 50\<rparr>"
proof -
  have "2 \<le> length scenario_A" by (simp add: scenario_A_def)
  then show ?thesis by (simp add: trend_general scenario_A_avgs scenario_A_volatility)
qed

lemma three_items_values: "map get_value three_items = [10, 20, 40]"
  by (simp add: three_items_def get_value_def)

lemma get_value_fill: "get_value (fill_value item) = get_value item"
  by (simp add: fill_value_def get_value_def)

lemma trend_fill:
  "calculate_trend_metrics (map fill_value data) = calculate_trend_metrics data"
  by (simp add: calculate_trend_metrics_def get_value_fill comp_def)

lemma sum_list_zeros: "\<forall>x\<in>set xs. x = 0 \<Longrightarrow> sum_list xs = (0::real)"
  by (induction xs) simp_all

lemma mean_zeros: "\<forall>x\<in>set xs. x = 0 \<Longrightarrow> mean xs = (0::real)"
  by (simp add: mean_def sum_list_zeros)

lemma earlier_zero:
  assumes "\<forall>x\<in>set vs. x = 0" and "2 \<le> length vs"
  shows "earlier_avg vs = 0"
proof -
  have "\<forall>x\<in>set (first_half vs). x = 0"
    using assms(1) by (auto simp: first_half_def dest: in_set_takeD)
  then show ?thesis using assms(2) by (simp add: earlier_avg_spec mean_zeros)
qed

text \<open>
  C2. For a series of at least two points, \<open>recent_avg\<close> is the mean of the last 7
  points, or of the last half (the points after the first half) when there are fewer
  than 7; \<open>earlier_avg\<close> is the mean of the first half, which is the first point when
  there are two; the change is \<open>(recent_avg - earlier_avg) / earlier_avg * 100\<close>, or 0
  when \<open>earlier_avg\<close> is 0; and the direction is up, down or stable by the sign of the
  change. The means are of non-empty lists. Scenario A gives 150, 100, 50 and up. A
  shorter series gives the insufficient-data result.
\<close>

theorem trend_metrics_correct:
  "(length data < 2 \<longrightarrow> calculate_trend_metrics data = InsufficientData) \<and>
   (2 \<le> length data \<longrightarrow>
      recent_avg (map get_value data) =
        (if 7 \<le> length data then mean (last_points 7 (map get_value data))
         else mean (last_half (map get_value data))) \<and>
      earlier_avg (map get_value data) = mean (first_half (map get_value data)) \<and>
      (length data = 2 \<longrightarrow> earlier_avg (map get_value data) = map get_value data ! 0) \<and>
      first_half (map get_value data) \<noteq> [] \<and> last_half (map get_value data) \<noteq> [] \<and>
      last_points 7 (map get_value data) \<noteq> [] \<and>
      change_pct (map get_value data) =
        (if earlier_avg (map get_value data) \<noteq> 0
         then (recent_avg (map get_value data) - earlier_avg (map get_value data)) /
              earlier_avg (map get_value data) * 100
         else 0) \<and>
      calculate_trend_metrics data =
        Metrics \<lparr>trend_direction =
                   (if change_pct (map get_value data) > 0 then ''up''
                    else if change_pct (map get_value data) < 0 then ''down''
                    else ''stable''),
                 change_percentage = change_pct (map get_value data),
                 volatility = np_std (map get_value data),
                 trend_strength = \<bar>change_pct (map get_value data)\<bar>\<rparr>) \<and>
   length scenario_A = 14 \<and>
   map get_value scenario_A =
     [100, 100, 100, 100, 100, 100, 100, 150, 150, 150, 150, 150, 150, 150] \<and>
   recent_avg (map get_value scenario_A) = 150 \<and>
   earlier_avg (map get_value scenario_A) = 100 \<and>
   calculate_trend_metrics scenario_A =
     Metrics \<lparr>trend_direction = ''up'', change_percentage = 50, volatility = 25,
              trend_strength = 50\<rparr>"
proof -
  have short: "length data < 2 \<longrightarrow> calculate_trend_metrics data = InsufficientData"
    by (simp add: calculate_trend_metrics_def)
  have long: "2 \<le> length data \<longrightarrow>
      recent_avg (map get_value data) =
        (if 7 \<le> length data then mean (last_points 7 (map get_value data))
         else mean (last_half (map get_value data))) \<and>
      earlier_avg (map get_value data) = mean (first_half (map get_value data)) \<and>
      (length data = 2 \<longrightarrow> earlier_avg (map get_value data) = map get_value data ! 0) \<and>
      first_half (map get_value data) \<noteq> [] \<and> last_half (map get_value data) \<noteq> [] \<and>
      last_points 7 (map get_value data) \<noteq> [] \<and>
      change_pct (map get_value data) =
        (if earlier_avg (map get_value data) \<noteq> 0
         then (recent_avg (map get_value data) - earlier_avg (map get_value data)) /
              earlier_avg (map get_value data) * 100
         else 0) \<and>
      calculate_trend_metrics data =
        Metrics \<lparr>trend_direction =
                   (if change_pct (map get_value data) > 0 then ''up''
                    else if change_pct (map get_value data) < 0 then ''down''
                    else ''stable''),
                 change_percentage = change_pct (map get_value data),
                 volatility = np_std (map get_value data),
                 trend_strength = \<bar>change_pct (map get_value data)\<bar>\<rparr>"
  proof
    assume l: "2 \<le> length data"
    then have len: "2 \<le> length (map get_value data)" by simp
    have a: "recent_avg (map get_value data) =
        (if 7 \<le> length data then mean (last_points 7 (map get_value data))
         else mean (last_half (map get_value data)))"
      using recent_avg_spec [of "map get_value data"] by simp
    have b: "earlier_avg (map get_value data) = mean (first_half (map get_value data))"
      using len by (rule earlier_avg_spec)
    have c: "length data = 2 \<longrightarrow> earlier_avg (map get_value data) = map get_value data ! 0"
      using first_half_two [of "map get_value data"] by (simp add: b)
    have d: "first_half (map get_value data) \<noteq> [] \<and> last_half (map get_value data) \<noteq> [] \<and>
      last_points 7 (map get_value data) \<noteq> []"
      using len by (rule halves_nonempty)
    have e: "change_pct (map get_value data) =
        (if earlier_avg (map get_value data) \<noteq> 0
         then (recent_avg (map get_value data) - earlier_avg (map get_value data)) /
              earlier_avg (map get_value data) * 100
         else 0)"
      by (simp only: change_pct_def)
    have f: "calculate_trend_metrics data =
        Metrics \<lparr>trend_direction =
                   (if change_pct (map get_value data) > 0 then ''up''
                    else if change_pct (map get_value data) < 0 then ''down''
                    else ''stable''),
                 change_percentage = change_pct (map get_value data),
                 volatility = np_std (map get_value data),
                 trend_strength = \<bar>change_pct (map get_value data)\<bar>\<rparr>"
      using l by (rule trend_general)
    from a b c d e f show "recent_avg (map get_value data) =
        (if 7 \<le> length data then mean (last_points 7 (map get_value data))
         else mean (last_half (map get_value data))) \<and>
      earlier_avg (map get_value data) = mean (first_half (map get_value data)) \<and>
      (length data = 2 \<longrightarrow> earlier_avg (map get_value data) = map get_value data ! 0) \<and>
      first_half (map get_value data) \<noteq> [] \<and> last_half (map get_value data) \<noteq> [] \<and>
      last_points 7 (map get_value data) \<noteq> [] \<and>
      change_pct (map get_value data) =
        (if earlier_avg (map get_value data) \<noteq> 0
         then (recent_avg (map get_value data) - earlier_avg (map get_value data)) /
              earlier_avg (map get_value data) * 100
         else 0) \<and>
      calculate_trend_metrics data =
        Metrics \<lparr>trend_direction =
                   (if change_pct (map get_value data) > 0 then ''up''
                    else if change_pct (map get_value data) < 0 then ''down''
                    else ''stable''),
                 change_percentage = change_pct (map get_value data),
                 volatility = np_std (map get_value data),
                 trend_strength = \<bar>change_pct (map get_value data)\<bar>\<rparr>"
      by blast
  qed
  have scen: "length scenario_A = 14 \<and>
   map get_value scenario_A =
     [100, 100, 100, 100, 100, 100, 100, 150, 150, 150, 150, 150, 150, 150] \<and>
   recent_avg (map get_value scenario_A) = 150 \<and>
   earlier_avg (map get_value scenario_A) = 100 \<and>
   calculate_trend_metrics scenario_A =
     Metrics \<lparr>trend_direction = ''up'', change_percentage = 50, volatility = 25,
              trend_strength = 50\<rparr>"
    using scenario_A_values scenario_A_avgs scenario_A_result
    by (simp add: scenario_A_def)
  show ?thesis by (rule conjI [OF short conjI [OF long scen]])
qed

lemma three_items_facts:
  "last_half (map get_value three_items) = [20, 40] \<and>
   first_half (map get_value three_items) = [10] \<and>
   mean [20, 40] = 30 \<and> mean [10] = 10"
  by (simp add: three_items_values last_half_def first_half_def mean_def)

theorem trend_metrics_correct_witness:
  "length one_item < 2 \<and> calculate_trend_metrics one_item = InsufficientData \<and>
   2 \<le> length three_items \<and>
   last_half (map get_value three_items) = [20, 40] \<and>
   first_half (map get_value three_items) = [10] \<and>
   recent_avg (map get_value three_items) = 30 \<and>
   earlier_avg (map get_value three_items) = 10 \<and>
   change_pct (map get_value three_items) = 200 \<and>
   calculate_trend_metrics three_items =
     Metrics \<lparr>trend_direction = ''up'', change_percentage = 200,
              volatility = np_std [10, 20, 40], trend_strength = 200\<rparr>"
proof -
  have l3: "2 \<le> length three_items" and l1: "length one_item < 2"
    by (simp_all add: three_items_def one_item_def)
  have n7: "\<not> 7 \<le> length three_items" by (simp add: three_items_def)
  note t = trend_metrics_correct [of three_items, THEN conjunct2, THEN conjunct1, rule_format,
      OF l3]
  from t n7 have r: "recent_avg (map get_value three_items) = 30"
    by (simp add: three_items_facts)
  from t have e: "earlier_avg (map get_value three_items) = 10"
    by (simp add: three_items_facts)
  from r e have c: "change_pct (map get_value three_items) = 200"
    by (simp add: change_pct_def)
  from t c have m: "calculate_trend_metrics three_items =
     Metrics \<lparr>trend_direction = ''up'', change_percentage = 200,
              volatility = np_std [10, 20, 40], trend_strength = 200\<rparr>"
    by (simp add: three_items_values)
  have s: "calculate_trend_metrics one_item = InsufficientData"
    using trend_metrics_correct [of one_item, THEN conjunct1] l1 by blast
  from l1 l3 r e c m s three_items_facts show ?thesis by simp
qed

text \<open>
  C9. For every list of at least two records the trend computation returns metrics,
  whatever keys the records have: a record without the key \<^verbatim>\<open>value\<close> counts as the
  value 0, so filling the missing values in with 0 does not change the result. When no
  record has a value, the change is 0 and the direction is stable.
\<close>

theorem trend_missing_value_defaults:
  "2 \<le> length data \<longrightarrow>
     (\<exists>m. calculate_trend_metrics data = Metrics m) \<and>
     (\<forall>item\<in>set data. item ''value'' = None \<longrightarrow> get_value item = 0) \<and>
     calculate_trend_metrics (map fill_value data) = calculate_trend_metrics data \<and>
     ((\<forall>item\<in>set data. item ''value'' = None) \<longrightarrow>
        (\<exists>m. calculate_trend_metrics data = Metrics m \<and> change_percentage m = 0 \<and>
             trend_direction m = ''stable'' \<and> trend_strength m = 0))"
proof
  assume len: "2 \<le> length data"
  have zero: "change_pct (map get_value data) = 0" if "\<forall>item\<in>set data. item ''value'' = None"
  proof -
    from that have "\<forall>x\<in>set (map get_value data). x = 0" by (auto simp add: get_value_def)
    moreover from len have "2 \<le> length (map get_value data)" by simp
    ultimately have "earlier_avg (map get_value data) = 0" by (rule earlier_zero)
    then show ?thesis by (simp add: change_pct_def)
  qed
  show "(\<exists>m. calculate_trend_metrics data = Metrics m) \<and>
     (\<forall>item\<in>set data. item ''value'' = None \<longrightarrow> get_value item = 0) \<and>
     calculate_trend_metrics (map fill_value data) = calculate_trend_metrics data \<and>
     ((\<forall>item\<in>set data. item ''value'' = None) \<longrightarrow>
        (\<exists>m. calculate_trend_metrics data = Metrics m \<and> change_percentage m = 0 \<and>
             trend_direction m = ''stable'' \<and> trend_strength m = 0))"
    using zero by (simp add: trend_general [OF len] trend_fill get_value_def)
qed

theorem trend_missing_value_defaults_witness:
  "2 \<le> length no_values \<and> list_all (\<lambda>item. item ''value'' = None) no_values \<and>
   (\<exists>m. calculate_trend_metrics no_values = Metrics m \<and> change_percentage m = 0 \<and>
        trend_direction m = ''stable'' \<and> trend_strength m = 0)"
  using trend_missing_value_defaults [of no_values]
  by (simp add: no_values_def)

section \<open>Risk levels\<close>

lemma predicted_level_eq:
  "predicted_level f = Some (if supplier_risk f < 70 then MEDIUM else HIGH)"
  by (simp add: predicted_level_def predict_risk_def RiskLevel_of_value_def)

text \<open>
  C8, as amended. The risk level of a score \<open>s\<close> (the request's \<^verbatim>\<open>supplier_risk\<close>, 50
  when absent) is medium if \<open>s < 70\<close> and high otherwise, never low or critical. It is the
  bucket of the thresholds 25, 50 and 75 exactly when \<open>25 \<le> s < 50\<close> or \<open>70 \<le> s < 75\<close>.
  For scores \<open>s1 < s2\<close> the level of \<open>s1\<close> is never higher than the level of \<open>s2\<close>.
\<close>

theorem risk_level_bucketing:
  "risk_level (predict_risk f) = (if supplier_risk f < 70 then ''medium'' else ''high'') \<and>
   predicted_level f = Some (if supplier_risk f < 70 then MEDIUM else HIGH) \<and>
   predicted_level f \<noteq> Some LOW \<and> predicted_level f \<noteq> Some CRITICAL \<and>
   ((predicted_level f = Some (spec_bucket (supplier_risk f))) =
      ((25 \<le> supplier_risk f \<and> supplier_risk f < 50) \<or>
       (70 \<le> supplier_risk f \<and> supplier_risk f < 75))) \<and>
   (supplier_risk f1 < supplier_risk f2 \<longrightarrow>
      level_rank (the (predicted_level f1)) \<le> level_rank (the (predicted_level f2)))"
  by (simp add: predicted_level_eq spec_bucket_def) (simp add: predict_risk_def)

theorem risk_level_bucketing_witness:
  "supplier_risk [''supplier_risk'' \<mapsto> 10] < supplier_risk [''supplier_risk'' \<mapsto> 80] \<and>
   predicted_level [''supplier_risk'' \<mapsto> 10] = Some MEDIUM \<and>
   predicted_level [''supplier_risk'' \<mapsto> 80] = Some HIGH \<and>
   level_rank (the (predicted_level [''supplier_risk'' \<mapsto> 10])) \<le>
   level_rank (the (predicted_level [''supplier_risk'' \<mapsto> 80]))"
  using risk_level_bucketing [of "[''supplier_risk'' \<mapsto> 10]" "[''supplier_risk'' \<mapsto> 10]"
      "[''supplier_risk'' \<mapsto> 80]"]
    risk_level_bucketing [of "[''supplier_risk'' \<mapsto> 80]"]
  by (simp add: supplier_risk_def)

theorem risk_level_not_spec_bucket:
  "risk_level (predict_risk [''supplier_risk'' \<mapsto> 10]) = ''medium'' \<and>
   predicted_level [''supplier_risk'' \<mapsto> 10] = Some MEDIUM \<and>
   spec_bucket 10 = LOW \<and>
   predicted_level [''supplier_risk'' \<mapsto> 10] \<noteq> Some (spec_bucket 10)"
  by (simp add: predicted_level_eq supplier_risk_def spec_bucket_def predict_risk_def)

end
